theory Spec2Isabelle
  imports Complex_Main "HOL-Library.Word"
begin

section \<open>The BSEC2 air-quality pipeline of src/main.cpp\<close>

text \<open>
  The development follows the BSEC2 program that forms the second half of
  \<^verbatim>\<open>src/main.cpp\<close> (from the declaration of \<^verbatim>\<open>gSeaLevelPressure\<close>
  to \<^verbatim>\<open>saveState\<close>): the file-scope variables become one record that every
  function takes and returns, the values read from the sensor, the buttons and the
  clock become arguments, and the drawing and \<^verbatim>\<open>Serial\<close> calls, which change none
  of these variables, are left out.
\<close>

subsection \<open>Numbers\<close>

text \<open>
  \<^verbatim>\<open>millis()\<close>, \<^verbatim>\<open>unsigned long\<close> and \<^verbatim>\<open>uint32_t\<close> are 32 bits wide on the
  ESP32-S3 this program is built for: subtraction wraps and comparison is unsigned.
\<close>

type_synonym u32 = "32 word"
type_synonym u8 = "8 word"

text \<open>
  A C \<^verbatim>\<open>float\<close> is an IEEE 754 binary32 value: \<^verbatim>\<open>NAN\<close>, which the program
  writes and tests for, one of the two infinities, or a finite number, carried here as
  the real it denotes. There is one zero, read as \<^verbatim>\<open>+0.0\<close>.
\<close>

datatype cfloat = NaN | PInf | MInf | Fin real

fun isnan :: "cfloat \<Rightarrow> bool" where
  "isnan NaN = True"
| "isnan _ = False"

text \<open>Every ordered comparison with \<^verbatim>\<open>NAN\<close> is false.\<close>

fun flt :: "cfloat \<Rightarrow> cfloat \<Rightarrow> bool" where
  "flt NaN _ = False"
| "flt _ NaN = False"
| "flt _ MInf = False"
| "flt PInf _ = False"
| "flt MInf _ = True"
| "flt (Fin x) PInf = True"
| "flt (Fin x) (Fin y) = (x < y)"

fun fle :: "cfloat \<Rightarrow> cfloat \<Rightarrow> bool" where
  "fle NaN _ = False"
| "fle _ NaN = False"
| "fle MInf _ = True"
| "fle _ PInf = True"
| "fle PInf _ = False"
| "fle (Fin x) MInf = False"
| "fle (Fin x) (Fin y) = (x \<le> y)"

definition fgt :: "cfloat \<Rightarrow> cfloat \<Rightarrow> bool" where
  "fgt a b = flt b a"

text \<open>
  Every arithmetic result is rounded to binary32, to the nearest value with ties to the
  even significand. \<open>rhe\<close> rounds a real to the nearest integer, ties to even.
\<close>

definition rhe :: "real \<Rightarrow> int" where
  "rhe y =
     (let f = \<lfloor>y\<rfloor>; d = y - of_int f
      in if d < 1 / 2 then f else if 1 / 2 < d then f + 1 else if even f then f else f + 1)"

text \<open>
  Magnitudes are measured in units of \<open>2\<^sup>-\<^sup>1\<^sup>4\<^sup>9\<close>, the smallest subnormal. A
  magnitude of \<open>t\<close> units below \<open>2\<^sup>2\<^sup>4\<close> is rounded to a whole number of units
  (the subnormals and the first binade); from there on the spacing doubles with every
  binade, and \<open>find_quantum\<close> finds the least \<open>j\<close> with \<open>t < 2\<^sup>j\<^sup>+\<^sup>2\<^sup>4\<close>, the
  spacing being \<open>2\<^sup>j\<close> units. The largest binade has \<open>j = 253\<close>.
\<close>

fun find_quantum :: "nat \<Rightarrow> nat \<Rightarrow> real \<Rightarrow> nat" where
  "find_quantum 0 j t = j"
| "find_quantum (Suc n) j t = (if t < 2 ^ (j + 24) then j else find_quantum n (j + 1) t)"

definition round_units :: "real \<Rightarrow> int" where
  "round_units t = (let j = find_quantum 254 0 t in rhe (t / 2 ^ j) * 2 ^ j)"

text \<open>
  A rounded magnitude of \<open>2\<^sup>2\<^sup>7\<^sup>7\<close> units, that is \<open>2\<^sup>1\<^sup>2\<^sup>8\<close>, or more
  overflows to the infinity of the sign.
\<close>

definition round32 :: "real \<Rightarrow> cfloat" where
  "round32 x =
     (let n = round_units (\<bar>x\<bar> * 2 ^ 149)
      in if 2 ^ 277 \<le> n then (if x < 0 then MInf else PInf)
         else Fin (sgn x * of_int n / 2 ^ 149))"

text \<open>
  Arithmetic carries \<^verbatim>\<open>NAN\<close> through, makes it from \<open>\<infinity> - \<infinity>\<close>,
  \<open>0 * \<infinity>\<close>, \<open>\<infinity> / \<infinity>\<close> and \<open>0 / 0\<close>, and rounds every finite result.
\<close>

fun fsub :: "cfloat \<Rightarrow> cfloat \<Rightarrow> cfloat" where
  "fsub NaN _ = NaN"
| "fsub _ NaN = NaN"
| "fsub PInf PInf = NaN"
| "fsub MInf MInf = NaN"
| "fsub PInf _ = PInf"
| "fsub MInf _ = MInf"
| "fsub (Fin x) PInf = MInf"
| "fsub (Fin x) MInf = PInf"
| "fsub (Fin x) (Fin y) = round32 (x - y)"

fun scale_inf :: "real \<Rightarrow> cfloat \<Rightarrow> cfloat" where
  "scale_inf x PInf = (if x = 0 then NaN else if 0 < x then PInf else MInf)"
| "scale_inf x MInf = (if x = 0 then NaN else if 0 < x then MInf else PInf)"
| "scale_inf x _ = NaN"

fun fmul :: "cfloat \<Rightarrow> cfloat \<Rightarrow> cfloat" where
  "fmul NaN _ = NaN"
| "fmul _ NaN = NaN"
| "fmul (Fin x) (Fin y) = round32 (x * y)"
| "fmul (Fin x) i = scale_inf x i"
| "fmul i (Fin y) = scale_inf y i"
| "fmul PInf i = scale_inf 1 i"
| "fmul MInf i = scale_inf (- 1) i"

text \<open>
  A finite number divided by zero is an infinity with the sign of the dividend, the
  zero being \<^verbatim>\<open>+0.0\<close>. The divisors of the program are \<^verbatim>\<open>100.0f\<close>,
  \<^verbatim>\<open>1000.0f\<close>, a baseline it has tested to be positive, and the sea-level pressure.
\<close>

fun fdiv :: "cfloat \<Rightarrow> cfloat \<Rightarrow> cfloat" where
  "fdiv NaN _ = NaN"
| "fdiv _ NaN = NaN"
| "fdiv (Fin x) (Fin y) =
     (if y = 0 then (if x = 0 then NaN else if 0 < x then PInf else MInf)
      else round32 (x / y))"
| "fdiv (Fin x) _ = Fin 0"
| "fdiv PInf (Fin y) = (if 0 \<le> y then PInf else MInf)"
| "fdiv MInf (Fin y) = (if 0 \<le> y then MInf else PInf)"
| "fdiv _ _ = NaN"

subsection \<open>File-scope variables and constants\<close>

type_synonym blob = "u8 list"

record globals =
  lastUpdate :: u32
  lastStateSave :: u32
  baselineEstablished :: bool
  gasBaseline :: cfloat
  gasMinWindow :: cfloat
  lastWindowUpdate :: u32
  prefsState :: "blob option"

text \<open>
  \<open>prefsState\<close> is the value stored under \<^verbatim>\<open>PREF_KEY_STATE\<close> in the
  \<^verbatim>\<open>Preferences\<close> namespace, \<open>None\<close> while nothing has been stored. The state
  of the program right after the static initialisers have run:
\<close>

definition initial_globals :: "blob option \<Rightarrow> globals" where
  "initial_globals stored =
     \<lparr> lastUpdate = 0, lastStateSave = 0, baselineEstablished = False,
       gasBaseline = NaN, gasMinWindow = NaN, lastWindowUpdate = 0,
       prefsState = stored \<rparr>"

definition gSeaLevelPressure :: cfloat where
  "gSeaLevelPressure = Fin 1013.25"

definition UPDATE_INTERVAL_MS :: u32 where
  "UPDATE_INTERVAL_MS = 5000"

definition BASELINE_DELAY_MS :: u32 where
  "BASELINE_DELAY_MS = 2 * 60 * 1000"

definition WINDOW_UPDATE_INTERVAL_MS :: u32 where
  "WINDOW_UPDATE_INTERVAL_MS = 30 * 1000"

text \<open>
  The save interval is the literal \<^verbatim>\<open>5UL * 60UL * 1000UL\<close> in \<^verbatim>\<open>loop\<close>; the
  declared \<^verbatim>\<open>STATE_SAVE_INTERVAL_MS\<close> (ten minutes) is never read.
\<close>

definition SAVE_INTERVAL_LITERAL :: u32 where
  "SAVE_INTERVAL_LITERAL = 5 * 60 * 1000"

record SensorValues =
  temperature :: cfloat
  humidity :: cfloat
  pressure_hPa :: cfloat
  gas_kOhm :: cfloat
  altitude_m :: cfloat
  iaq :: cfloat
  iaqAccuracy :: u8
  co2eq :: cfloat
  vocEq :: cfloat
  readMs :: u32
  simpleVocIndex :: cfloat
  gasBaseline_kOhm :: cfloat
  gasMinWindow_kOhm :: cfloat

subsection \<open>The simple VOC index\<close>

text \<open>
  \<^verbatim>\<open>computeSimpleVocIndex\<close> returns the index and, through the two assignments to
  \<^verbatim>\<open>gasMinWindow\<close>, changes the globals.
\<close>

definition computeSimpleVocIndex :: "cfloat \<Rightarrow> globals \<Rightarrow> cfloat \<times> globals" where
  "computeSimpleVocIndex gasCurrent g =
     (if \<not> baselineEstablished g \<or> isnan (gasBaseline g) \<or> fle (gasBaseline g) (Fin 0)
      then (NaN, g)
      else
        let g1 = (if isnan (gasMinWindow g) then g\<lparr>gasMinWindow := gasCurrent\<rparr> else g);
            g2 = (if flt gasCurrent (gasMinWindow g1) then g1\<lparr>gasMinWindow := gasCurrent\<rparr> else g1);
            delta = fsub (gasBaseline g2) gasCurrent;
            index = fmul (fdiv delta (gasBaseline g2)) (Fin 100)
        in (if flt index (Fin 0) then Fin 0 else index, g2))"

text \<open>
  The six strings \<^verbatim>\<open>classifySimpleVoc\<close> returns, in the order of its
  \<^verbatim>\<open>return\<close> statements: "being established", "excellent", "normal", "deviating",
  "poor", "severe".
\<close>

datatype label = Building | Excellent | Normal | Elevated | Poor | Severe

definition classifySimpleVoc :: "cfloat \<Rightarrow> label" where
  "classifySimpleVoc index =
     (if isnan index then Building
      else if flt index (Fin 2) then Excellent
      else if flt index (Fin 10) then Normal
      else if flt index (Fin 25) then Elevated
      else if flt index (Fin 50) then Poor
      else Severe)"

subsection \<open>Altitude\<close>

text \<open>
  \<^verbatim>\<open>calcAltitude\<close> reads the file-scope \<^verbatim>\<open>gSeaLevelPressure\<close>; the value it
  reads is the second argument here. It calls \<^verbatim>\<open>pow\<close> on two floats, for which
  C++ selects the single-precision overload, so the result is a float again. That
  function belongs to the C library and not to this program, so it is the first
  argument; what a statement needs of it is said where it is needed. The literal \<^verbatim>\<open>0.1903f\<close> is the
  binary32 value \<open>12770817 / 2\<^sup>2\<^sup>6\<close>.
\<close>

definition calcAltitude :: "(cfloat \<Rightarrow> cfloat \<Rightarrow> cfloat) \<Rightarrow> cfloat \<Rightarrow> cfloat \<Rightarrow> cfloat" where
  "calcAltitude pow seaLevel pressure =
     fmul (Fin 44330)
       (fsub (Fin 1) (pow (fdiv pressure seaLevel) (Fin (12770817 / 2 ^ 26))))"

subsection \<open>Sensor setup and the saved estimator state\<close>

text \<open>
  \<^verbatim>\<open>initBsec2\<close>: the three arguments are what \<^verbatim>\<open>envSensor.begin\<close> returns at
  address 0x76, at address 0x77, and what \<^verbatim>\<open>updateSubscription\<close> returns.
  \<^verbatim>\<open>loadState\<close> and \<^verbatim>\<open>setTemperatureOffset\<close> act on the sensor object only;
  the one file-scope variable the function assigns is \<^verbatim>\<open>lastUpdate\<close>.
\<close>

definition initBsec2 :: "bool \<Rightarrow> bool \<Rightarrow> bool \<Rightarrow> globals \<Rightarrow> bool \<times> globals" where
  "initBsec2 begin_low begin_high subscribed g =
     (if \<not> begin_low \<and> \<not> begin_high then (False, g)
      else if \<not> subscribed then (False, g)
      else (True, g\<lparr>lastUpdate := 0\<rparr>))"

text \<open>
  \<^verbatim>\<open>saveState\<close>: \<open>state_blob\<close> is \<open>None\<close> when \<^verbatim>\<open>envSensor.getState\<close>
  returns false, and \<open>put_ok\<close> tells whether \<^verbatim>\<open>prefs.putBytes\<close> wrote the
  bytes. The function returns nothing, so neither failure reaches the caller.
\<close>

definition saveState :: "blob option \<Rightarrow> bool \<Rightarrow> globals \<Rightarrow> globals" where
  "saveState state_blob put_ok g =
     (case state_blob of
        None \<Rightarrow> g
      | Some b \<Rightarrow> if put_ok then g\<lparr>prefsState := Some b\<rparr> else g)"

subsection \<open>The line at the bottom right of the screen\<close>

text \<open>
  Of \<^verbatim>\<open>updateDynamicUI\<close> the model keeps the last statement, which prints either
  the simple index with its class or the vendor's IAQ with its accuracy.
\<close>

datatype info_line = SimpleVocLine cfloat label | IaqLine cfloat u8

definition updateDynamicUI :: "SensorValues \<Rightarrow> info_line" where
  "updateDynamicUI vals =
     (if iaqAccuracy vals < 2
      then SimpleVocLine (simpleVocIndex vals) (classifySimpleVoc (simpleVocIndex vals))
      else IaqLine (iaq vals) (iaqAccuracy vals))"

text \<open>Which of the two estimators a line comes from.\<close>

datatype source = Vendor | Fallback

fun line_source :: "info_line \<Rightarrow> source" where
  "line_source (SimpleVocLine v l) = Fallback"
| "line_source (IaqLine v a) = Vendor"

subsection \<open>One sampling cycle\<close>

text \<open>
  What one pass through the body of \<^verbatim>\<open>if (got && ...)\<close> in \<^verbatim>\<open>loop\<close> reads from
  outside: the clock, the seven BSEC outputs, and the outcome of the two calls inside
  \<^verbatim>\<open>saveState\<close>. The library's \<^verbatim>\<open>pow\<close> is passed on to \<^verbatim>\<open>calcAltitude\<close>.
\<close>

record bsecData =
  signal :: cfloat
  accuracy :: u8

record tick =
  now :: u32
  elapsed :: u32
  dTemp :: bsecData
  dHum :: bsecData
  dPress :: bsecData
  dGas :: bsecData
  dIaq :: bsecData
  dCo2 :: bsecData
  dVoc :: bsecData
  state_blob :: "blob option"
  put_ok :: bool

text \<open>
  \<open>elapsed\<close> is \<^verbatim>\<open>millis() - tStart\<close>. The steps of the body, in the order of the
  source; each is a fragment of \<^verbatim>\<open>loop\<close>, named here after what its comment says:
  the pressure unit (lines 437 to 441 of \<^verbatim>\<open>src/main.cpp\<close>), the gas resistance in
  kilo-ohms (442), locking the baseline (450 to 455), resetting the window minimum
  (458 to 462), and the periodic save of the estimator state (471 to 474).
\<close>

definition normalize_pressure :: "cfloat \<Rightarrow> cfloat" where
  "normalize_pressure rawPress =
     (if fgt rawPress (Fin 5000) then fdiv rawPress (Fin 100) else rawPress)"

definition normalize_gas :: "cfloat \<Rightarrow> cfloat" where
  "normalize_gas rawGas = fdiv rawGas (Fin 1000)"

definition establish_baseline :: "u32 \<Rightarrow> cfloat \<Rightarrow> globals \<Rightarrow> globals" where
  "establish_baseline t gas g =
     (if \<not> baselineEstablished g \<and> t > BASELINE_DELAY_MS
      then g\<lparr>gasBaseline := gas, baselineEstablished := True, gasMinWindow := gas\<rparr>
      else g)"

definition reset_window :: "u32 \<Rightarrow> cfloat \<Rightarrow> globals \<Rightarrow> globals" where
  "reset_window t gas g =
     (if baselineEstablished g \<and> t - lastWindowUpdate g > WINDOW_UPDATE_INTERVAL_MS
      then g\<lparr>gasMinWindow := gas, lastWindowUpdate := t\<rparr>
      else g)"

definition should_save :: "u8 \<Rightarrow> u32 \<Rightarrow> globals \<Rightarrow> bool" where
  "should_save acc t g = (acc = 3 \<and> t - lastStateSave g \<ge> SAVE_INTERVAL_LITERAL)"

definition periodic_save :: "u8 \<Rightarrow> u32 \<Rightarrow> blob option \<Rightarrow> bool \<Rightarrow> globals \<Rightarrow> globals" where
  "periodic_save acc t sb ok g =
     (if should_save acc t g then (saveState sb ok g)\<lparr>lastStateSave := t\<rparr> else g)"

definition cycle ::
  "(cfloat \<Rightarrow> cfloat \<Rightarrow> cfloat) \<Rightarrow> tick \<Rightarrow> globals \<Rightarrow> SensorValues \<times> info_line \<times> globals" where
  "cycle pow k g =
     (let g0 = g\<lparr>lastUpdate := now k\<rparr>;
          pressure = normalize_pressure (signal (dPress k));
          gas = normalize_gas (signal (dGas k));
          g1 = establish_baseline (now k) gas g0;
          g2 = reset_window (now k) gas g1;
          (index, g3) = computeSimpleVocIndex gas g2;
          vals = \<lparr> temperature = signal (dTemp k), humidity = signal (dHum k),
                   pressure_hPa = pressure, gas_kOhm = gas,
                   altitude_m = calcAltitude pow gSeaLevelPressure pressure,
                   iaq = signal (dIaq k), iaqAccuracy = accuracy (dIaq k),
                   co2eq = signal (dCo2 k), vocEq = signal (dVoc k), readMs = elapsed k,
                   simpleVocIndex = index, gasBaseline_kOhm = gasBaseline g3,
                   gasMinWindow_kOhm = gasMinWindow g3 \<rparr>
      in (vals, updateDynamicUI vals,
          periodic_save (iaqAccuracy vals) (now k) (state_blob k) (put_ok k) g3))"

text \<open>A run of sampling cycles, oldest first.\<close>

fun cycles :: "(cfloat \<Rightarrow> cfloat \<Rightarrow> cfloat) \<Rightarrow> tick list \<Rightarrow> globals \<Rightarrow> globals" where
  "cycles pow [] g = g"
| "cycles pow (k # ks) g = cycles pow ks (snd (snd (cycle pow k g)))"

subsection \<open>One pass through \<^verbatim>\<open>loop\<close>\<close>

text \<open>
  The buttons are read first: A zeroes \<^verbatim>\<open>lastUpdate\<close>, B scans the bus (no
  variable changes), C calls \<^verbatim>\<open>initBsec2\<close> and drops its result. Then the clock is
  read, \<^verbatim>\<open>envSensor.run()\<close> is called, and the cycle runs when it returned true and
  the refresh interval has passed. The result tells what the cycle, if any, showed.
\<close>

record events =
  btnA :: bool
  btnB :: bool
  btnC :: bool
  begin_low :: bool
  begin_high :: bool
  subscribed :: bool
  got :: bool
  sampled :: tick

definition loop ::
  "(cfloat \<Rightarrow> cfloat \<Rightarrow> cfloat) \<Rightarrow> events \<Rightarrow> globals \<Rightarrow> (SensorValues \<times> info_line) option \<times> globals" where
  "loop pow e g =
     (let ga = (if btnA e then g\<lparr>lastUpdate := 0\<rparr> else g);
          gc = (if btnC e then snd (initBsec2 (begin_low e) (begin_high e) (subscribed e) ga)
                else ga);
          k = sampled e
      in if got e \<and> now k - lastUpdate gc \<ge> UPDATE_INTERVAL_MS
         then (case cycle pow k gc of (vals, line, g') \<Rightarrow> (Some (vals, line), g'))
         else (None, gc))"

subsection \<open>Sample states and inputs\<close>

text \<open>
  Concrete values for the worked examples: a state with an established baseline of
  \<open>b\<close> and a window minimum of \<open>w\<close> (both in kilo-ohms), a cycle at time \<open>t\<close> with
  a raw gas resistance in ohms and an IAQ accuracy, and a pass through \<^verbatim>\<open>loop\<close> in
  which only button C is pressed and the sensor has nothing new.
\<close>

definition established_at :: "real \<Rightarrow> real \<Rightarrow> globals" where
  "established_at b w =
     \<lparr> lastUpdate = 0, lastStateSave = 0, baselineEstablished = True,
       gasBaseline = Fin b, gasMinWindow = Fin w, lastWindowUpdate = 0,
       prefsState = None \<rparr>"

definition sample_tick :: "u32 \<Rightarrow> real \<Rightarrow> u8 \<Rightarrow> tick" where
  "sample_tick t ohms acc =
     \<lparr> now = t, elapsed = 0,
       dTemp = \<lparr>signal = Fin 25, accuracy = 0\<rparr>,
       dHum = \<lparr>signal = Fin 40, accuracy = 0\<rparr>,
       dPress = \<lparr>signal = Fin 101325, accuracy = 0\<rparr>,
       dGas = \<lparr>signal = Fin ohms, accuracy = 0\<rparr>,
       dIaq = \<lparr>signal = Fin 50, accuracy = acc\<rparr>,
       dCo2 = \<lparr>signal = Fin 500, accuracy = 0\<rparr>,
       dVoc = \<lparr>signal = Fin 1, accuracy = 0\<rparr>,
       state_blob = Some [1, 2, 3], put_ok = True \<rparr>"

definition press_C :: "tick \<Rightarrow> events" where
  "press_C k =
     \<lparr> btnA = False, btnB = False, btnC = True, begin_low = True, begin_high = False,
       subscribed = True, got = False, sampled = k \<rparr>"

text \<open>
  One function the library's \<^verbatim>\<open>pow\<close> could be, for a positive exponent that is not
  an integer: the correctly rounded power.
\<close>

fun pow_rounded :: "cfloat \<Rightarrow> cfloat \<Rightarrow> cfloat" where
  "pow_rounded (Fin x) (Fin y) = (if x < 0 then NaN else round32 (x powr y))"
| "pow_rounded PInf (Fin y) = PInf"
| "pow_rounded MInf (Fin y) = PInf"
| "pow_rounded _ _ = NaN"

section \<open>Properties\<close>

subsection \<open>Rounding to binary32\<close>

lemma rhe_of_int: "rhe (of_int n) = n"
  by (simp add: rhe_def)



lemma rhe_floor: "\<lfloor>y\<rfloor> \<le> rhe y" "rhe y \<le> \<lfloor>y\<rfloor> + 1"
  by (auto simp: rhe_def Let_def)

lemma rhe_mono: assumes "y \<le> z" shows "rhe y \<le> rhe z"
proof (cases "\<lfloor>y\<rfloor> = \<lfloor>z\<rfloor>")
  case True
  then have "y - of_int \<lfloor>y\<rfloor> \<le> z - of_int \<lfloor>z\<rfloor>" using assms by simp
  then show ?thesis using True by (auto simp: rhe_def Let_def)
next
  case False
  then have "\<lfloor>y\<rfloor> < \<lfloor>z\<rfloor>" using assms floor_mono [of y z] by linarith
  then show ?thesis using rhe_floor(2) [of y] rhe_floor(1) [of z] by linarith
qed

lemma rhe_ge_int: "of_int k \<le> y \<Longrightarrow> k \<le> rhe y"
  using rhe_mono [of "of_int k" y] by (simp add: rhe_of_int)

lemma rhe_le_int: "y \<le> of_int k \<Longrightarrow> rhe y \<le> k"
  using rhe_mono [of y "of_int k"] by (simp add: rhe_of_int)

lemma find_quantum_range:
  "j \<le> find_quantum n j t \<and> find_quantum n j t \<le> j + n"
proof (induction n arbitrary: j)
  case 0
  then show ?case by simp
next
  case (Suc n)
  from Suc [of "Suc j"] show ?case by auto
qed

lemma find_quantum_lower:
  "find_quantum n j t = j \<or> 2 ^ (find_quantum n j t + 23) \<le> t"
proof (induction n arbitrary: j)
  case 0
  then show ?case by simp
next
  case (Suc n)
  show ?case
  proof (cases "t < 2 ^ (j + 24)")
    case True
    then show ?thesis by simp
  next
    case False
    from Suc [of "j + 1"] show ?thesis
    proof
      assume "find_quantum n (j + 1) t = j + 1"
      moreover have "2 ^ (j + 1 + 23) \<le> t"
        using False by (simp add: not_less add.commute)
      ultimately show ?thesis using False by simp
    next
      assume "2 ^ (find_quantum n (j + 1) t + 23) \<le> t"
      with False show ?thesis by simp
    qed
  qed
qed

lemma find_quantum_upper:
  "find_quantum n j t = j + n \<or> t < 2 ^ (find_quantum n j t + 24)"
proof (induction n arbitrary: j)
  case 0
  then show ?case by simp
next
  case (Suc n)
  from Suc [of "Suc j"] show ?case by auto
qed


lemma find_quantum_eq:
  assumes "j = 0 \<or> 2 ^ (j + 23) \<le> t" and "t < 2 ^ (j + 24)" and "j \<le> 253"
  shows "find_quantum 254 0 t = j"
proof -
  let ?f = "find_quantum 254 0 t"
  have up: "?f = 254 \<or> t < 2 ^ (?f + 24)"
    using find_quantum_upper [of 254 0 t] by simp
  have lo: "?f = 0 \<or> 2 ^ (?f + 23) \<le> t"
    using find_quantum_lower [of 254 0 t] by simp
  have rg: "?f \<le> 254" using find_quantum_range [of 0 254 t] by simp
  have a: "?f \<le> j"
  proof (rule ccontr)
    assume "\<not> ?f \<le> j"
    then have "j + 1 \<le> ?f" by simp
    then have "(2::real) ^ (j + 24) \<le> 2 ^ (?f + 23)"
      by (intro power_increasing) simp_all
    moreover have "2 ^ (?f + 23) \<le> t" using lo \<open>j + 1 \<le> ?f\<close> by auto
    ultimately show False using assms(2) by linarith
  qed
  have b: "j \<le> ?f"
  proof (rule ccontr)
    assume n: "\<not> j \<le> ?f"
    then have "?f + 1 \<le> j" by simp
    then have "(2::real) ^ (?f + 24) \<le> 2 ^ (j + 23)"
      by (intro power_increasing) simp_all
    moreover have "2 ^ (j + 23) \<le> t" using assms(1) n by auto
    moreover have "t < 2 ^ (?f + 24)" using up a assms(3) n by auto
    ultimately show False by linarith
  qed
  from a b show ?thesis by simp
qed

lemma round_units_nonneg: "0 \<le> t \<Longrightarrow> 0 \<le> round_units t"
proof -
  assume "0 \<le> t"
  then have "0 \<le> t / 2 ^ find_quantum 254 0 t" by simp
  then have "0 \<le> rhe (t / 2 ^ find_quantum 254 0 t)"
    using rhe_ge_int [of 0] by simp
  then show ?thesis by (simp add: round_units_def Let_def)
qed


lemma round_units_exact:
  assumes "0 \<le> m" and "m < 2 ^ 24" and "k \<le> 253"
  shows "round_units (of_int m * 2 ^ k) = m * 2 ^ k"
proof -
  let ?t = "of_int m * 2 ^ k :: real"
  let ?j = "find_quantum 254 0 ?t"
  have "of_int m < (2::real) ^ 24" using assms(2) by (metis of_int_less_numeral_power_cancel_iff)
  then have tlt: "?t < 2 ^ (k + 24)"
    by (simp add: power_add mult.commute)
  have "?j \<le> k"
  proof (rule ccontr)
    assume "\<not> ?j \<le> k"
    then have "?j \<noteq> 0" and "k + 24 \<le> ?j + 23" by simp_all
    then have "2 ^ (?j + 23) \<le> ?t"
      using find_quantum_lower [of 254 0 ?t] by simp
    moreover have "(2::real) ^ (k + 24) \<le> 2 ^ (?j + 23)"
      using \<open>k + 24 \<le> ?j + 23\<close> by (intro power_increasing) simp_all
    ultimately show False using tlt by linarith
  qed
  then obtain d where k: "k = ?j + d" using le_Suc_ex by blast
  have "?t / 2 ^ ?j = of_int (m * 2 ^ d)"
    by (subst k) (simp add: power_add)
  then have "rhe (?t / 2 ^ ?j) = m * 2 ^ d" by (simp only: rhe_of_int)
  then have "rhe (?t / 2 ^ ?j) * 2 ^ ?j = m * 2 ^ k"
    by (subst (2) k) (simp add: power_add)
  then show ?thesis by (simp add: round_units_def Let_def)
qed

lemma round32_dyadic:
  assumes "x * 2 ^ d = of_int m" and "\<bar>m\<bar> < 2 ^ 24" and "d \<le> 149"
  shows "round32 x = Fin x"
proof -
  obtain k where k: "149 = d + k" using assms(3) le_Suc_ex by blast
  have "\<bar>x\<bar> * 2 ^ d = of_int \<bar>m\<bar>"
    using assms(1) by (metis abs_mult abs_numeral abs_power2 of_int_abs power_abs)
  then have t: "\<bar>x\<bar> * 2 ^ 149 = of_int \<bar>m\<bar> * 2 ^ k"
    by (simp add: k power_add)
  have u: "round_units (\<bar>x\<bar> * 2 ^ 149) = \<bar>m\<bar> * 2 ^ k"
    unfolding t using assms(2) k by (intro round_units_exact) simp_all
  have "\<bar>m\<bar> * 2 ^ k < 2 ^ 24 * 2 ^ k"
    using assms(2) by simp
  also have "\<dots> \<le> 2 ^ 24 * 2 ^ 253"
    using k by (intro mult_left_mono power_increasing) simp_all
  finally have small: "\<not> 2 ^ 277 \<le> \<bar>m\<bar> * 2 ^ k" by simp
  have "sgn x * of_int (\<bar>m\<bar> * 2 ^ k) / 2 ^ 149 = sgn x * (\<bar>x\<bar> * 2 ^ 149) / 2 ^ 149"
    using t by simp
  also have "\<dots> = x" by (simp add: mult_sgn_abs)
  finally have v: "sgn x * of_int (\<bar>m\<bar> * 2 ^ k) / 2 ^ 149 = x" .
  have "round32 x =
      (if 2 ^ 277 \<le> \<bar>m\<bar> * 2 ^ k then (if x < 0 then MInf else PInf)
       else Fin (sgn x * of_int (\<bar>m\<bar> * 2 ^ k) / 2 ^ 149))"
    by (simp only: round32_def Let_def u)
  then show ?thesis by (simp only: small if_False v)
qed

lemma round_units_zero: "round_units 0 = 0"
  using round_units_exact [of 0 0] by simp

lemma round32_not_nan: "\<not> isnan (round32 x)"
  by (simp add: round32_def Let_def)


lemma round32_nonpos: "x \<le> 0 \<Longrightarrow> fle (round32 x) (Fin 0)"
  using round_units_nonneg [of "\<bar>x\<bar> * 2 ^ 149"]
  by (auto simp: round32_def Let_def sgn_if divide_le_0_iff round_units_zero)







lemma round32_scaled:
  assumes "0 < x" and "x * 2 ^ d = y" and "2 ^ 23 \<le> y" and "y < 2 ^ 24" and "d \<le> 149"
  shows "round32 x = Fin (of_int (rhe y) / 2 ^ d)"
proof -
  obtain j where j: "149 = d + j" using assms(5) le_Suc_ex by blast
  let ?t = "\<bar>x\<bar> * 2 ^ 149"
  have t: "?t = y * 2 ^ j"
    using assms(1,2) by (simp add: j power_add)
  have "2 ^ (j + 23) \<le> ?t"
    unfolding t using assms(3) by (simp add: power_add mult.commute)
  moreover have "?t < 2 ^ (j + 24)"
    unfolding t using assms(4) by (simp add: power_add mult.commute)
  moreover have "j \<le> 253" using j by simp
  ultimately have f: "find_quantum 254 0 ?t = j"
    by (intro find_quantum_eq) simp_all
  have "?t / 2 ^ j = y" unfolding t by simp
  then have u: "round_units ?t = rhe y * 2 ^ j"
    by (simp only: round_units_def Let_def f)
  have "y \<le> of_int (2 ^ 24)" using assms(4) by simp
  then have "rhe y \<le> 2 ^ 24" by (rule rhe_le_int)
  then have "rhe y * 2 ^ j \<le> 2 ^ 24 * 2 ^ j" by (simp add: mult_right_mono)
  also have "\<dots> \<le> 2 ^ 24 * 2 ^ 149"
    using j by (intro mult_left_mono power_increasing) simp_all
  also have "\<dots> < 2 ^ 277" by simp
  finally have small: "\<not> 2 ^ 277 \<le> rhe y * 2 ^ j" by simp
  have "sgn x * of_int (rhe y * 2 ^ j) / 2 ^ 149 = of_int (rhe y) / 2 ^ d"
    using assms(1) by (simp add: j power_add)
  then show ?thesis
    by (simp only: round32_def Let_def u small if_False)
qed

text \<open>Whole numbers below \<open>2\<^sup>2\<^sup>4\<close> are binary32 values.\<close>

lemma round32_numeral:
  "numeral w < (2::int) ^ 24 \<Longrightarrow> round32 (numeral w) = Fin (numeral w)"
  by (rule round32_dyadic [where d = 0 and m = "numeral w"]) simp_all



subsection \<open>Arithmetic on binary32 values\<close>


lemma fsub_nan:
  "isnan (fsub a b) \<longleftrightarrow> isnan a \<or> isnan b \<or> (a = PInf \<and> b = PInf) \<or> (a = MInf \<and> b = MInf)"
  by (cases a; cases b) (simp_all add: round32_not_nan)

lemma fdiv_pos_nan: "0 < b \<Longrightarrow> isnan (fdiv a (Fin b)) \<longleftrightarrow> isnan a"
  by (cases a) (simp_all add: round32_not_nan)

lemma fmul_pos_nan: "0 < k \<Longrightarrow> isnan (fmul a (Fin k)) \<longleftrightarrow> isnan a"
  by (cases a) (simp_all add: round32_not_nan)

lemma fsub_nonpos: "b \<le> x \<Longrightarrow> fle (fsub (Fin b) (Fin x)) (Fin 0)"
  by (simp add: round32_nonpos)

lemma fdiv_pos_nonpos: "0 < b \<Longrightarrow> fle a (Fin 0) \<Longrightarrow> fle (fdiv a (Fin b)) (Fin 0)"
  by (cases a) (simp_all add: round32_nonpos divide_le_0_iff)

lemma fmul_pos_nonpos: "0 < k \<Longrightarrow> fle a (Fin 0) \<Longrightarrow> fle (fmul a (Fin k)) (Fin 0)"
  by (cases a) (simp_all add: round32_nonpos mult_le_0_iff)

lemma clamp_zero: "fle i (Fin 0) \<Longrightarrow> (if flt i (Fin 0) then Fin 0 else i) = Fin 0"
  by (cases i) auto

lemma clamp_nan: "isnan (if flt i (Fin 0) then Fin 0 else i) \<longleftrightarrow> isnan i"
  by (cases i) auto

lemma clamp_nonneg: "\<not> flt (if flt i (Fin 0) then Fin 0 else i) (Fin 0)"
  by simp









text \<open>Values the worked examples meet.\<close>

lemma round32_quarter: "round32 (1 / 4) = Fin (1 / 4)"
  by (rule round32_dyadic [where d = 2 and m = 1]) simp_all

lemma index_100_75: "fmul (fdiv (fsub (Fin 100) (Fin 75)) (Fin 100)) (Fin 100) = Fin 25"
  by (simp add: round32_numeral round32_quarter)

lemma index_100_40:
  "fmul (fdiv (fsub (Fin 100) (Fin 40)) (Fin 100)) (Fin 100) = Fin (15728641 / 2 ^ 18)"
proof -
  have s1: "fsub (Fin 100) (Fin 40) = Fin 60"
    by (simp add: round32_numeral)
  have "rhe (60 / 100 * 2 ^ 24) = 10066330"
    by (simp add: rhe_def Let_def)
  with round32_scaled [of "60 / 100" 24 "60 / 100 * 2 ^ 24"]
  have "round32 (60 / 100) = Fin (10066330 / 2 ^ 24)" by simp
  then have s2: "fdiv (Fin 60) (Fin 100) = Fin (10066330 / 2 ^ 24)"
    by (simp only: fdiv.simps) simp
  have "rhe (10066330 / 2 ^ 24 * 100 * 2 ^ 18) = 15728641"
    by (simp add: rhe_def Let_def)
  with round32_scaled [of "10066330 / 2 ^ 24 * 100" 18 "10066330 / 2 ^ 24 * 100 * 2 ^ 18"]
  have "round32 (10066330 / 2 ^ 24 * 100) = Fin (15728641 / 2 ^ 18)" by simp
  then have s3: "fmul (Fin (10066330 / 2 ^ 24)) (Fin 100) = Fin (15728641 / 2 ^ 18)"
    by (simp only: fmul.simps)
  show ?thesis by (simp only: s1 s2 s3)
qed




subsection \<open>What each step reads and writes\<close>

lemma flt_irrefl: "\<not> flt c c"
  by (cases c) simp_all

lemma compute_keeps:
  "baselineEstablished (snd (computeSimpleVocIndex c g)) = baselineEstablished g"
  "gasBaseline (snd (computeSimpleVocIndex c g)) = gasBaseline g"
  "lastWindowUpdate (snd (computeSimpleVocIndex c g)) = lastWindowUpdate g"
  "lastStateSave (snd (computeSimpleVocIndex c g)) = lastStateSave g"
  "lastUpdate (snd (computeSimpleVocIndex c g)) = lastUpdate g"
  "prefsState (snd (computeSimpleVocIndex c g)) = prefsState g"
  by (simp_all add: computeSimpleVocIndex_def Let_def)

lemma compute_window:
  "gasMinWindow (snd (computeSimpleVocIndex c g)) =
     (if \<not> baselineEstablished g \<or> isnan (gasBaseline g) \<or> fle (gasBaseline g) (Fin 0)
      then gasMinWindow g
      else if isnan (gasMinWindow g) \<or> flt c (gasMinWindow g) then c else gasMinWindow g)"
  by (simp add: computeSimpleVocIndex_def Let_def flt_irrefl)

lemma compute_window_same:
  "gasMinWindow g = c \<Longrightarrow> gasMinWindow (snd (computeSimpleVocIndex c g)) = c"
  by (simp add: compute_window)

lemma compute_index:
  "fst (computeSimpleVocIndex c g) =
     (if \<not> baselineEstablished g \<or> isnan (gasBaseline g) \<or> fle (gasBaseline g) (Fin 0)
      then NaN
      else let index = fmul (fdiv (fsub (gasBaseline g) c) (gasBaseline g)) (Fin 100)
           in if flt index (Fin 0) then Fin 0 else index)"
  by (simp add: computeSimpleVocIndex_def Let_def)

lemma compute_index_cong:
  "baselineEstablished g = baselineEstablished g' \<Longrightarrow> gasBaseline g = gasBaseline g' \<Longrightarrow>
   fst (computeSimpleVocIndex c g) = fst (computeSimpleVocIndex c g')"
  by (simp add: compute_index)

lemma before_compute:
  "baselineEstablished (reset_window t gas (establish_baseline t gas g)) =
     (baselineEstablished g \<or> BASELINE_DELAY_MS < t)"
  "gasBaseline (reset_window t gas (establish_baseline t gas g)) =
     (if \<not> baselineEstablished g \<and> BASELINE_DELAY_MS < t then gas else gasBaseline g)"
  by (auto simp: establish_baseline_def reset_window_def)

lemma establish_window:
  "\<not> baselineEstablished g \<Longrightarrow> BASELINE_DELAY_MS < t \<Longrightarrow>
   gasMinWindow (reset_window t gas (establish_baseline t gas g)) = gas"
  by (simp add: reset_window_def establish_baseline_def)

lemma periodic_save_keeps:
  "baselineEstablished (periodic_save a t sb ok g) = baselineEstablished g"
  "gasBaseline (periodic_save a t sb ok g) = gasBaseline g"
  "gasMinWindow (periodic_save a t sb ok g) = gasMinWindow g"
  "lastWindowUpdate (periodic_save a t sb ok g) = lastWindowUpdate g"
  "lastUpdate (periodic_save a t sb ok g) = lastUpdate g"
  by (simp_all add: periodic_save_def saveState_def split: option.splits)

lemma cycle_globals:
  "snd (snd (cycle pow k g)) =
     periodic_save (accuracy (dIaq k)) (now k) (state_blob k) (put_ok k)
       (snd (computeSimpleVocIndex (normalize_gas (signal (dGas k)))
         (reset_window (now k) (normalize_gas (signal (dGas k)))
           (establish_baseline (now k) (normalize_gas (signal (dGas k)))
             (g\<lparr>lastUpdate := now k\<rparr>)))))"
  by (simp add: cycle_def Let_def split: prod.splits)

lemma cycle_vals:
  "pressure_hPa (fst (cycle pow k g)) = normalize_pressure (signal (dPress k))"
  "gas_kOhm (fst (cycle pow k g)) = normalize_gas (signal (dGas k))"
  "iaqAccuracy (fst (cycle pow k g)) = accuracy (dIaq k)"
  "iaq (fst (cycle pow k g)) = signal (dIaq k)"
  "altitude_m (fst (cycle pow k g)) =
     calcAltitude pow gSeaLevelPressure (normalize_pressure (signal (dPress k)))"
  "simpleVocIndex (fst (cycle pow k g)) =
     fst (computeSimpleVocIndex (normalize_gas (signal (dGas k)))
         (reset_window (now k) (normalize_gas (signal (dGas k)))
           (establish_baseline (now k) (normalize_gas (signal (dGas k)))
             (g\<lparr>lastUpdate := now k\<rparr>))))"
  by (simp_all add: cycle_def Let_def split: prod.splits)

lemma cycle_line: "fst (snd (cycle pow k g)) = updateDynamicUI (fst (cycle pow k g))"
  by (simp add: cycle_def Let_def split: prod.splits)

lemma cycle_established:
  "baselineEstablished (snd (snd (cycle pow k g))) =
     (baselineEstablished g \<or> BASELINE_DELAY_MS < now k)"
  by (simp add: cycle_globals periodic_save_keeps compute_keeps before_compute)

lemma cycle_baseline:
  "gasBaseline (snd (snd (cycle pow k g))) =
     (if \<not> baselineEstablished g \<and> BASELINE_DELAY_MS < now k
      then normalize_gas (signal (dGas k)) else gasBaseline g)"
  by (simp add: cycle_globals periodic_save_keeps compute_keeps before_compute)

lemma cycle_window_established:
  assumes "\<not> baselineEstablished g" "BASELINE_DELAY_MS < now k"
  shows "gasMinWindow (snd (snd (cycle pow k g))) = normalize_gas (signal (dGas k))"
  using assms
  by (simp add: cycle_globals periodic_save_keeps compute_window_same establish_window)

lemma cycles_append: "cycles pow (xs @ ys) g = cycles pow ys (cycles pow xs g)"
  by (induction xs arbitrary: g) simp_all

lemma cycles_unestablished:
  "\<not> baselineEstablished g \<Longrightarrow> \<forall>k\<in>set ks. now k \<le> BASELINE_DELAY_MS \<Longrightarrow>
   \<not> baselineEstablished (cycles pow ks g)"
  by (induction ks arbitrary: g) (simp_all add: cycle_established not_less)

lemma cycles_keep_baseline:
  "baselineEstablished g \<Longrightarrow>
   baselineEstablished (cycles pow ks g) \<and> gasBaseline (cycles pow ks g) = gasBaseline g"
  by (induction ks arbitrary: g) (simp_all add: cycle_established cycle_baseline)

lemma initBsec2_keeps:
  "baselineEstablished (snd (initBsec2 lo hi sub g)) = baselineEstablished g"
  "gasBaseline (snd (initBsec2 lo hi sub g)) = gasBaseline g"
  "gasMinWindow (snd (initBsec2 lo hi sub g)) = gasMinWindow g"
  "lastWindowUpdate (snd (initBsec2 lo hi sub g)) = lastWindowUpdate g"
  "lastStateSave (snd (initBsec2 lo hi sub g)) = lastStateSave g"
  "prefsState (snd (initBsec2 lo hi sub g)) = prefsState g"
  by (simp_all add: initBsec2_def)

lemma initBsec2_result:
  "fst (initBsec2 lo hi sub g) = ((lo \<or> hi) \<and> sub)"
  "lastUpdate (snd (initBsec2 lo hi sub g)) = (if (lo \<or> hi) \<and> sub then 0 else lastUpdate g)"
  by (auto simp: initBsec2_def)

lemma loop_idle:
  "\<not> got e \<Longrightarrow> snd (loop pow e g) =
     (if btnC e
      then snd (initBsec2 (begin_low e) (begin_high e) (subscribed e)
                  (if btnA e then g\<lparr>lastUpdate := 0\<rparr> else g))
      else (if btnA e then g\<lparr>lastUpdate := 0\<rparr> else g))"
  by (simp add: loop_def Let_def)

lemma cycle_window_vals:
  "gasMinWindow_kOhm (fst (cycle pow k g)) = gasMinWindow (snd (snd (cycle pow k g)))"
  "gasBaseline_kOhm (fst (cycle pow k g)) = gasBaseline (snd (snd (cycle pow k g)))"
  by (simp_all add: cycle_globals periodic_save_keeps) (simp_all add: cycle_def Let_def split: prod.splits)

lemma reset_fires:
  assumes "baselineEstablished g \<or> BASELINE_DELAY_MS < t"
    and "WINDOW_UPDATE_INTERVAL_MS < t - lastWindowUpdate g"
  shows "gasMinWindow (reset_window t gas (establish_baseline t gas g)) = gas"
    and "lastWindowUpdate (reset_window t gas (establish_baseline t gas g)) = t"
  using assms by (auto simp: reset_window_def establish_baseline_def)

lemma reset_idle:
  assumes "\<not> ((baselineEstablished g \<or> BASELINE_DELAY_MS < t)
             \<and> WINDOW_UPDATE_INTERVAL_MS < t - lastWindowUpdate g)"
  shows "lastWindowUpdate (reset_window t gas (establish_baseline t gas g)) = lastWindowUpdate g"
  using assms by (auto simp: reset_window_def establish_baseline_def)

lemma before_save_keeps:
  "lastStateSave (snd (computeSimpleVocIndex gas (reset_window t gas (establish_baseline t gas (g\<lparr>lastUpdate := t\<rparr>)))))
     = lastStateSave g"
  "prefsState (snd (computeSimpleVocIndex gas (reset_window t gas (establish_baseline t gas (g\<lparr>lastUpdate := t\<rparr>)))))
     = prefsState g"
  by (simp_all add: compute_keeps reset_window_def establish_baseline_def)

lemma should_save_cong:
  "lastStateSave g = lastStateSave g' \<Longrightarrow> should_save a t g = should_save a t g'"
  by (simp add: should_save_def)

lemma saveState_prefs:
  "prefsState g = prefsState g' \<Longrightarrow>
   prefsState (saveState sb ok g) = prefsState (saveState sb ok g')"
  by (simp add: saveState_def split: option.splits)

lemma periodic_save_fields:
  "lastStateSave (periodic_save a t sb ok g) = (if should_save a t g then t else lastStateSave g)"
  "prefsState (periodic_save a t sb ok g) =
     (if should_save a t g then prefsState (saveState sb ok g) else prefsState g)"
  by (simp_all add: periodic_save_def)

lemma cycle_save:
  "lastStateSave (snd (snd (cycle pow k g))) =
     (if should_save (accuracy (dIaq k)) (now k) g then now k else lastStateSave g)"
  "prefsState (snd (snd (cycle pow k g))) =
     (if should_save (accuracy (dIaq k)) (now k) g
      then prefsState (saveState (state_blob k) (put_ok k) g) else prefsState g)"
proof -
  let ?gas = "normalize_gas (signal (dGas k))"
  let ?g3 = "snd (computeSimpleVocIndex ?gas (reset_window (now k) ?gas
                (establish_baseline (now k) ?gas (g\<lparr>lastUpdate := now k\<rparr>))))"
  have s: "should_save a t ?g3 = should_save a t g" for a t
    by (rule should_save_cong) (rule before_save_keeps)
  have p: "prefsState (saveState sb ok ?g3) = prefsState (saveState sb ok g)" for sb ok
    by (rule saveState_prefs) (rule before_save_keeps)
  show "lastStateSave (snd (snd (cycle pow k g))) =
     (if should_save (accuracy (dIaq k)) (now k) g then now k else lastStateSave g)"
    by (simp add: cycle_globals periodic_save_fields s before_save_keeps)
  show "prefsState (snd (snd (cycle pow k g))) =
     (if should_save (accuracy (dIaq k)) (now k) g
      then prefsState (saveState (state_blob k) (put_ok k) g) else prefsState g)"
    by (simp add: cycle_globals periodic_save_fields s p before_save_keeps)
qed

lemma cycles_no_save:
  "\<forall>e\<in>set ks. now e - lastStateSave g < SAVE_INTERVAL_LITERAL \<Longrightarrow>
   lastStateSave (cycles pow ks g) = lastStateSave g \<and> prefsState (cycles pow ks g) = prefsState g"
proof (induction ks arbitrary: g)
  case Nil
  then show ?case by simp
next
  case (Cons k ks)
  have no: "\<not> should_save (accuracy (dIaq k)) (now k) g"
    using Cons.prems by (simp add: should_save_def not_le)
  have same: "lastStateSave (snd (snd (cycle pow k g))) = lastStateSave g"
    "prefsState (snd (snd (cycle pow k g))) = prefsState g"
    using no by (simp_all add: cycle_save)
  have "\<forall>e\<in>set ks. now e - lastStateSave (snd (snd (cycle pow k g))) < SAVE_INTERVAL_LITERAL"
    using Cons.prems same by simp
  from Cons.IH [OF this] same show ?case by simp
qed

subsection \<open>Establishing the baseline\<close>

text \<open>
  C2, as the program has it. Take a run of cycles from a state with no baseline. As
  long as every cycle so far ran at a \<^verbatim>\<open>millis()\<close> value of at most
  \<^verbatim>\<open>BASELINE_DELAY_MS\<close> (120000), no baseline is established. The first cycle whose
  time is strictly greater than \<^verbatim>\<open>BASELINE_DELAY_MS\<close> establishes it: after that
  cycle the baseline and the window minimum both equal that cycle's gas resistance in
  kilo-ohms. Whatever cycles follow, the baseline stays established at that value.
\<close>

theorem baseline_established_after_delay:
  assumes "\<not> baselineEstablished g"
    and "\<forall>e\<in>set earlier. now e \<le> BASELINE_DELAY_MS"
    and "BASELINE_DELAY_MS < now k"
  shows "(\<forall>n. \<not> baselineEstablished (cycles pow (take n earlier) g))
     \<and> baselineEstablished (cycles pow (earlier @ [k]) g)
     \<and> gasBaseline (cycles pow (earlier @ [k]) g) = gas_kOhm (fst (cycle pow k (cycles pow earlier g)))
     \<and> gasMinWindow (cycles pow (earlier @ [k]) g) = gas_kOhm (fst (cycle pow k (cycles pow earlier g)))
     \<and> (\<forall>later. baselineEstablished (cycles pow (earlier @ k # later) g)
          \<and> gasBaseline (cycles pow (earlier @ k # later) g) =
            gas_kOhm (fst (cycle pow k (cycles pow earlier g))))"
proof -
  let ?g = "cycles pow earlier g"
  have before: "\<not> baselineEstablished (cycles pow (take n earlier) g)" for n
  proof (rule cycles_unestablished [OF assms(1)])
    show "\<forall>e\<in>set (take n earlier). now e \<le> BASELINE_DELAY_MS"
      using assms(2) by (meson in_set_takeD)
  qed
  have un: "\<not> baselineEstablished ?g"
    by (rule cycles_unestablished [OF assms(1,2)])
  have step: "cycles pow (earlier @ [k]) g = snd (snd (cycle pow k ?g))"
    by (simp add: cycles_append)
  have est: "baselineEstablished (snd (snd (cycle pow k ?g)))"
    using assms(3) by (simp add: cycle_established)
  have base: "gasBaseline (snd (snd (cycle pow k ?g))) = normalize_gas (signal (dGas k))"
    using un assms(3) by (simp add: cycle_baseline)
  have win: "gasMinWindow (snd (snd (cycle pow k ?g))) = normalize_gas (signal (dGas k))"
    by (rule cycle_window_established [OF un assms(3)])
  have after: "baselineEstablished (cycles pow (earlier @ k # later) g)
      \<and> gasBaseline (cycles pow (earlier @ k # later) g) = normalize_gas (signal (dGas k))"
    for later
    using cycles_keep_baseline [OF est, where ks = later] base by (simp add: cycles_append)
  show ?thesis
    using before est base win after by (simp add: step cycle_vals)
qed

text \<open>
  From power-up: cycles at 5 s and at exactly 120 s leave the baseline open, the cycle
  at 125 s with 75000 ohms fixes it at 75 kilo-ohms, and a later reading of 60000 ohms
  does not move it.
\<close>

theorem baseline_established_after_delay_witness:
  "\<not> baselineEstablished
       (cycles pow_rounded [sample_tick 5000 80000 0, sample_tick 120000 78000 0] (initial_globals None))
   \<and> baselineEstablished
       (cycles pow_rounded ([sample_tick 5000 80000 0, sample_tick 120000 78000 0]
                @ [sample_tick 125000 75000 0])
          (initial_globals None))
   \<and> gasBaseline
       (cycles pow_rounded ([sample_tick 5000 80000 0, sample_tick 120000 78000 0]
                @ [sample_tick 125000 75000 0])
          (initial_globals None)) = Fin 75
   \<and> gasMinWindow
       (cycles pow_rounded ([sample_tick 5000 80000 0, sample_tick 120000 78000 0]
                @ [sample_tick 125000 75000 0])
          (initial_globals None)) = Fin 75
   \<and> gasBaseline
       (cycles pow_rounded ([sample_tick 5000 80000 0, sample_tick 120000 78000 0]
                @ sample_tick 125000 75000 0 # [sample_tick 130000 60000 0])
          (initial_globals None)) = Fin 75"
proof -
  let ?g = "initial_globals None"
  let ?earlier = "[sample_tick 5000 80000 0, sample_tick 120000 78000 0]"
  let ?k = "sample_tick 125000 75000 0"
  have h1: "\<not> baselineEstablished ?g" by (simp add: initial_globals_def)
  have h2: "\<forall>e\<in>set ?earlier. now e \<le> BASELINE_DELAY_MS"
    by (simp add: sample_tick_def BASELINE_DELAY_MS_def)
  have h3: "BASELINE_DELAY_MS < now ?k"
    by (simp add: sample_tick_def BASELINE_DELAY_MS_def)
  have gas: "gas_kOhm (fst (cycle pow_rounded ?k (cycles pow_rounded ?earlier ?g))) = Fin 75"
    by (simp add: cycle_vals sample_tick_def normalize_gas_def round32_numeral)
  have t: "take 2 ?earlier = ?earlier" by simp
  from baseline_established_after_delay [OF h1 h2 h3, where pow = pow_rounded] have
    "(\<forall>n. \<not> baselineEstablished (cycles pow_rounded (take n ?earlier) ?g))
     \<and> baselineEstablished (cycles pow_rounded (?earlier @ [?k]) ?g)
     \<and> gasBaseline (cycles pow_rounded (?earlier @ [?k]) ?g) = Fin 75
     \<and> gasMinWindow (cycles pow_rounded (?earlier @ [?k]) ?g) = Fin 75
     \<and> (\<forall>later. baselineEstablished (cycles pow_rounded (?earlier @ ?k # later) ?g)
          \<and> gasBaseline (cycles pow_rounded (?earlier @ ?k # later) ?g) = Fin 75)"
    unfolding gas .
  then show ?thesis using t by metis
qed

text \<open>
  The comparison in \<^verbatim>\<open>loop\<close> is \<^verbatim>\<open>now > BASELINE_DELAY_MS\<close>: a first cycle at
  exactly 120000 ms, which is "at or after" the delay, establishes nothing.
\<close>

theorem baseline_not_established_at_delay:
  "\<not> baselineEstablished (cycles pow_rounded [sample_tick 120000 75000 0] (initial_globals None))"
  by (simp add: cycle_established sample_tick_def initial_globals_def BASELINE_DELAY_MS_def)

subsection \<open>The value of the simple VOC index\<close>

text \<open>
  C3, as the program has it. \<^verbatim>\<open>computeSimpleVocIndex\<close> returns \<^verbatim>\<open>NAN\<close> exactly
  when no baseline is established, or the baseline is \<^verbatim>\<open>NAN\<close>, zero, negative or
  \<open>+\<infinity>\<close>, or the current reading itself is \<^verbatim>\<open>NAN\<close>. The result is never below
  zero. With an established positive finite baseline \<open>b\<close> and a reading \<open>c\<close> it is
  the value of \<open>(b - c) / b * 100\<close> in binary32 arithmetic, each of the three
  operations rounded, raised to zero when negative. A finite reading at or above the
  baseline gives exactly zero; a reading of \<open>+\<infinity>\<close> gives zero and a reading of
  \<open>-\<infinity>\<close> gives \<open>+\<infinity>\<close>.
\<close>

theorem simple_voc_index_value:
  "(isnan (fst (computeSimpleVocIndex c g)) \<longleftrightarrow>
      \<not> baselineEstablished g \<or> isnan (gasBaseline g) \<or> fle (gasBaseline g) (Fin 0)
      \<or> gasBaseline g = PInf \<or> isnan c)
   \<and> \<not> flt (fst (computeSimpleVocIndex c g)) (Fin 0)
   \<and> (baselineEstablished g \<and> gasBaseline g = Fin b \<and> 0 < b \<longrightarrow>
        fst (computeSimpleVocIndex c g) =
          (let index = fmul (fdiv (fsub (Fin b) c) (Fin b)) (Fin 100)
           in if flt index (Fin 0) then Fin 0 else index))
   \<and> (baselineEstablished g \<and> gasBaseline g = Fin b \<and> 0 < b \<and> c = Fin x \<and> b \<le> x \<longrightarrow>
        fst (computeSimpleVocIndex c g) = Fin 0)
   \<and> (baselineEstablished g \<and> gasBaseline g = Fin b \<and> 0 < b \<and> c = PInf \<longrightarrow>
        fst (computeSimpleVocIndex c g) = Fin 0)
   \<and> (baselineEstablished g \<and> gasBaseline g = Fin b \<and> 0 < b \<and> c = MInf \<longrightarrow>
        fst (computeSimpleVocIndex c g) = PInf)"
proof -
  have val: "fst (computeSimpleVocIndex c g) =
          (let index = fmul (fdiv (fsub (Fin b) c) (Fin b)) (Fin 100)
           in if flt index (Fin 0) then Fin 0 else index)"
    if "baselineEstablished g" "gasBaseline g = Fin b" "0 < b" for b c
    using that by (simp add: compute_index Let_def)
  have nan: "isnan (fst (computeSimpleVocIndex c g)) \<longleftrightarrow>
      \<not> baselineEstablished g \<or> isnan (gasBaseline g) \<or> fle (gasBaseline g) (Fin 0)
      \<or> gasBaseline g = PInf \<or> isnan c"
  proof (cases "gasBaseline g")
    case NaN
    then show ?thesis by (simp add: compute_index)
  next
    case PInf
    then show ?thesis by (cases c) (simp_all add: compute_index Let_def)
  next
    case MInf
    then show ?thesis by (simp add: compute_index)
  next
    case (Fin b)
    show ?thesis
    proof (cases "baselineEstablished g \<and> 0 < b")
      case True
      then have "isnan (fst (computeSimpleVocIndex c g)) \<longleftrightarrow>
          isnan (fmul (fdiv (fsub (Fin b) c) (Fin b)) (Fin 100))"
        using val [OF _ Fin, of c] by (simp add: Let_def clamp_nan)
      also have "\<dots> \<longleftrightarrow> isnan c"
        using True by (simp add: fmul_pos_nan fdiv_pos_nan fsub_nan)
      finally show ?thesis using True Fin by (simp add: not_le)
    next
      case False
      then show ?thesis using Fin by (auto simp: compute_index not_less)
    qed
  qed
  have nonneg: "\<not> flt (fst (computeSimpleVocIndex c g)) (Fin 0)"
    by (simp add: compute_index Let_def)
  have zero: "fst (computeSimpleVocIndex (Fin x) g) = Fin 0"
    if "baselineEstablished g" "gasBaseline g = Fin b" "0 < b" "b \<le> x" for x b
  proof -
    have "fle (fmul (fdiv (fsub (Fin b) (Fin x)) (Fin b)) (Fin 100)) (Fin 0)"
      using that(3,4) by (intro fmul_pos_nonpos fdiv_pos_nonpos fsub_nonpos) simp_all
    then show ?thesis
      unfolding val [OF that(1-3)] Let_def by (rule clamp_zero)
  qed
  have pinf: "fst (computeSimpleVocIndex PInf g) = Fin 0"
    if "baselineEstablished g" "gasBaseline g = Fin b" "0 < b" for b
    using that by (simp add: compute_index Let_def)
  have minf: "fst (computeSimpleVocIndex MInf g) = PInf"
    if "baselineEstablished g" "gasBaseline g = Fin b" "0 < b" for b
    using that by (simp add: compute_index Let_def)
  show ?thesis using nan nonneg val zero pinf minf by blast
qed

text \<open>
  Baseline 100 and reading 75 give exactly 25. Baseline 100 and reading 40 give
  \<open>15728641 / 2\<^sup>1\<^sup>8\<close>, a little above 60, since 0.6 is no binary32 value. The
  readings 120 and \<open>+\<infinity>\<close> give 0, which is a number and not \<^verbatim>\<open>NAN\<close>; a baseline
  of 0, and no baseline at all, give \<^verbatim>\<open>NAN\<close>.
\<close>

theorem simple_voc_index_value_witness:
  "fst (computeSimpleVocIndex (Fin 75) (established_at 100 100)) = Fin 25
   \<and> fst (computeSimpleVocIndex (Fin 40) (established_at 100 100)) = Fin (15728641 / 2 ^ 18)
   \<and> fst (computeSimpleVocIndex (Fin 120) (established_at 100 100)) = Fin 0
   \<and> fst (computeSimpleVocIndex PInf (established_at 100 100)) = Fin 0
   \<and> fst (computeSimpleVocIndex MInf (established_at 100 100)) = PInf
   \<and> isnan (fst (computeSimpleVocIndex (Fin 75) (established_at 0 100)))
   \<and> isnan (fst (computeSimpleVocIndex (Fin 75) (initial_globals None)))
   \<and> \<not> isnan (fst (computeSimpleVocIndex (Fin 120) (established_at 100 100)))"
proof -
  have e: "baselineEstablished (established_at 100 100)"
    "gasBaseline (established_at 100 100) = Fin 100"
    "baselineEstablished (established_at 0 100)"
    "gasBaseline (established_at 0 100) = Fin 0"
    "\<not> baselineEstablished (initial_globals None)"
    by (simp_all add: established_at_def initial_globals_def)
  have pos: "(0::real) < 100" by simp
  have "fst (computeSimpleVocIndex (Fin 75) (established_at 100 100)) =
      (let index = fmul (fdiv (fsub (Fin 100) (Fin 75)) (Fin 100)) (Fin 100)
       in if flt index (Fin 0) then Fin 0 else index)"
    using simple_voc_index_value [of "Fin 75" "established_at 100 100" 100 75] e(1,2) pos
    by blast
  then have a: "fst (computeSimpleVocIndex (Fin 75) (established_at 100 100)) = Fin 25"
    by (simp only: index_100_75 Let_def) simp
  have "fst (computeSimpleVocIndex (Fin 40) (established_at 100 100)) =
      (let index = fmul (fdiv (fsub (Fin 100) (Fin 40)) (Fin 100)) (Fin 100)
       in if flt index (Fin 0) then Fin 0 else index)"
    using simple_voc_index_value [of "Fin 40" "established_at 100 100" 100 40] e(1,2) pos
    by blast
  then have b: "fst (computeSimpleVocIndex (Fin 40) (established_at 100 100)) =
      Fin (15728641 / 2 ^ 18)"
    by (simp only: index_100_40 Let_def) simp
  have le: "(100::real) \<le> 120" by simp
  have c: "fst (computeSimpleVocIndex (Fin 120) (established_at 100 100)) = Fin 0"
    using simple_voc_index_value [of "Fin 120" "established_at 100 100" 100 120] e(1,2) pos le
    by blast
  have d: "fst (computeSimpleVocIndex PInf (established_at 100 100)) = Fin 0"
    using simple_voc_index_value [of PInf "established_at 100 100" 100 0] e(1,2) pos
    by blast
  have f: "fst (computeSimpleVocIndex MInf (established_at 100 100)) = PInf"
    using simple_voc_index_value [of MInf "established_at 100 100" 100 0] e(1,2) pos
    by blast
  have "fle (gasBaseline (established_at 0 100)) (Fin 0)"
    by (simp add: e(4))
  then have n1: "isnan (fst (computeSimpleVocIndex (Fin 75) (established_at 0 100)))"
    using simple_voc_index_value [of "Fin 75" "established_at 0 100" 0 75] by blast
  have n2: "isnan (fst (computeSimpleVocIndex (Fin 75) (initial_globals None)))"
    using simple_voc_index_value [of "Fin 75" "initial_globals None" 0 75] e(5) by blast
  have n3: "\<not> isnan (fst (computeSimpleVocIndex (Fin 120) (established_at 100 100)))"
    by (simp only: c isnan.simps not_False_eq_True)
  show ?thesis
    using a b c d f n1 n2 n3 by blast
qed

text \<open>
  With an established baseline of 100 kilo-ohms, a reading of \<^verbatim>\<open>NAN\<close> passes the
  guard, and the subtraction, the division, the multiplication and the test
  \<^verbatim>\<open>index < 0\<close> hand \<^verbatim>\<open>NAN\<close> through to the caller.
\<close>

theorem simple_voc_index_nan_reading:
  "fst (computeSimpleVocIndex NaN (established_at 100 100)) = NaN
   \<and> baselineEstablished (established_at 100 100)
   \<and> gasBaseline (established_at 100 100) = Fin 100
   \<and> flt (Fin 0) (gasBaseline (established_at 100 100))"
  by (simp add: compute_index established_at_def)

subsection \<open>The classes of the index\<close>

text \<open>
  C4. \<^verbatim>\<open>classifySimpleVoc\<close> gives the class Building to \<^verbatim>\<open>NAN\<close> and to nothing
  else. A value below 2 is Excellent, from 2 up to but excluding 10 Normal, from 10 up
  to but excluding 25 Elevated, from 25 up to but excluding 50 Poor, and from 50 on
  Severe; an index of exactly 25 is Poor.
\<close>

theorem classify_bands:
  "(classifySimpleVoc v = Building \<longleftrightarrow> isnan v)
   \<and> (flt v (Fin 2) \<longrightarrow> classifySimpleVoc v = Excellent)
   \<and> (fle (Fin 2) v \<and> flt v (Fin 10) \<longrightarrow> classifySimpleVoc v = Normal)
   \<and> (fle (Fin 10) v \<and> flt v (Fin 25) \<longrightarrow> classifySimpleVoc v = Elevated)
   \<and> (fle (Fin 25) v \<and> flt v (Fin 50) \<longrightarrow> classifySimpleVoc v = Poor)
   \<and> (fle (Fin 50) v \<longrightarrow> classifySimpleVoc v = Severe)
   \<and> classifySimpleVoc (Fin 25) = Poor"
  by (cases v) (simp_all add: classifySimpleVoc_def)

text \<open>
  The index 25 is Poor and not Elevated; 1.5, 5, 15 and 60 are Excellent, Normal,
  Elevated and Severe; \<^verbatim>\<open>NAN\<close> is Building.
\<close>

theorem classify_bands_witness:
  "classifySimpleVoc (Fin 25) = Poor \<and> classifySimpleVoc (Fin 25) \<noteq> Elevated
   \<and> classifySimpleVoc (Fin 1.5) = Excellent \<and> classifySimpleVoc (Fin 5) = Normal
   \<and> classifySimpleVoc (Fin 15) = Elevated \<and> classifySimpleVoc (Fin 60) = Severe
   \<and> classifySimpleVoc NaN = Building"
  using classify_bands [of "Fin 25"] classify_bands [of "Fin 1.5"] classify_bands [of "Fin 5"]
    classify_bands [of "Fin 15"] classify_bands [of "Fin 60"] classify_bands [of NaN]
  by simp

subsection \<open>Units\<close>




subsection \<open>The index and the window minimum\<close>

text \<open>
  C10. Two states with the same established flag and the same baseline give the same
  index, and so the same class, whatever their window minima are; a cycle's index does
  not depend on the window minimum it starts from. The call does write the window
  minimum: with a usable baseline it becomes the reading when it was \<^verbatim>\<open>NAN\<close> or
  above the reading.
\<close>

theorem index_ignores_window_min:
  "(baselineEstablished g = baselineEstablished g' \<and> gasBaseline g = gasBaseline g' \<longrightarrow>
      fst (computeSimpleVocIndex c g) = fst (computeSimpleVocIndex c g')
      \<and> classifySimpleVoc (fst (computeSimpleVocIndex c g)) =
        classifySimpleVoc (fst (computeSimpleVocIndex c g')))
   \<and> simpleVocIndex (fst (cycle pow k (g\<lparr>gasMinWindow := w\<rparr>))) = simpleVocIndex (fst (cycle pow k g))
   \<and> gasMinWindow (snd (computeSimpleVocIndex c g)) =
       (if \<not> baselineEstablished g \<or> isnan (gasBaseline g) \<or> fle (gasBaseline g) (Fin 0)
        then gasMinWindow g
        else if isnan (gasMinWindow g) \<or> flt c (gasMinWindow g) then c else gasMinWindow g)"
proof -
  have a: "fst (computeSimpleVocIndex c g) = fst (computeSimpleVocIndex c g')"
    if "baselineEstablished g = baselineEstablished g'" "gasBaseline g = gasBaseline g'"
    using that by (rule compute_index_cong)
  have b: "simpleVocIndex (fst (cycle pow k (g\<lparr>gasMinWindow := w\<rparr>))) =
      simpleVocIndex (fst (cycle pow k g))"
    unfolding cycle_vals
    by (rule compute_index_cong) (simp_all add: before_compute)
  show ?thesis using a b compute_window [of c g] by simp
qed

text \<open>
  Baseline 100, reading 75: window minima of 90 and of 60 both give the index 25, and
  the call lowers the first minimum to 75 and leaves the second at 60.
\<close>

theorem index_ignores_window_min_witness:
  "fst (computeSimpleVocIndex (Fin 75) (established_at 100 90)) =
     fst (computeSimpleVocIndex (Fin 75) (established_at 100 60))
   \<and> gasMinWindow (snd (computeSimpleVocIndex (Fin 75) (established_at 100 90))) = Fin 75
   \<and> gasMinWindow (snd (computeSimpleVocIndex (Fin 75) (established_at 100 60))) = Fin 60"
proof -
  have same: "baselineEstablished (established_at 100 90) = baselineEstablished (established_at 100 60)
      \<and> gasBaseline (established_at 100 90) = gasBaseline (established_at 100 60)"
    by (simp add: established_at_def)
  have a: "fst (computeSimpleVocIndex (Fin 75) (established_at 100 90)) =
     fst (computeSimpleVocIndex (Fin 75) (established_at 100 60))"
    using index_ignores_window_min [of "established_at 100 90" "established_at 100 60" "Fin 75"]
      same by blast
  have b: "gasMinWindow (snd (computeSimpleVocIndex (Fin 75) (established_at 100 90))) = Fin 75"
    using index_ignores_window_min [of "established_at 100 90" "established_at 100 90" "Fin 75"]
    by (simp add: established_at_def)
  have c: "gasMinWindow (snd (computeSimpleVocIndex (Fin 75) (established_at 100 60))) = Fin 60"
    using index_ignores_window_min [of "established_at 100 60" "established_at 100 60" "Fin 75"]
    by (simp add: established_at_def)
  show ?thesis using a b c by blast
qed

subsection \<open>Reinitialising the sensor\<close>

text \<open>
  C1, as the program has it. \<^verbatim>\<open>initBsec2\<close>, which button C calls, leaves the
  established flag, the baseline, the window minimum and the time of the last window
  reset as they were, whatever the sensor answers, and likewise the time of the last
  save and the stored estimator state; of the variables of the pipeline it writes only
  \<^verbatim>\<open>lastUpdate\<close>, which becomes 0 when the setup succeeds. A pass through
  \<^verbatim>\<open>loop\<close> with button C pressed and no new sensor data therefore ends with the
  baseline state it started with.
\<close>

theorem reinitialize_keeps_baseline:
  "baselineEstablished (snd (initBsec2 lo hi sub g)) = baselineEstablished g
   \<and> gasBaseline (snd (initBsec2 lo hi sub g)) = gasBaseline g
   \<and> gasMinWindow (snd (initBsec2 lo hi sub g)) = gasMinWindow g
   \<and> lastWindowUpdate (snd (initBsec2 lo hi sub g)) = lastWindowUpdate g
   \<and> lastStateSave (snd (initBsec2 lo hi sub g)) = lastStateSave g
   \<and> prefsState (snd (initBsec2 lo hi sub g)) = prefsState g
   \<and> lastUpdate (snd (initBsec2 lo hi sub g)) = (if (lo \<or> hi) \<and> sub then 0 else lastUpdate g)
   \<and> (btnC e \<and> \<not> got e \<longrightarrow>
        baselineEstablished (snd (loop pow e g)) = baselineEstablished g
        \<and> gasBaseline (snd (loop pow e g)) = gasBaseline g
        \<and> gasMinWindow (snd (loop pow e g)) = gasMinWindow g
        \<and> lastWindowUpdate (snd (loop pow e g)) = lastWindowUpdate g)"
  by (simp add: initBsec2_keeps initBsec2_result loop_idle)

text \<open>
  A state with a baseline of 100 and a window minimum of 80 kilo-ohms, button C
  pressed at 200 s: the baseline is still established, at the same value.
\<close>

theorem reinitialize_keeps_baseline_witness:
  "baselineEstablished (snd (loop pow_rounded (press_C (sample_tick 200000 75000 0)) (established_at 100 80)))
     = baselineEstablished (established_at 100 80)
   \<and> gasBaseline (snd (loop pow_rounded (press_C (sample_tick 200000 75000 0)) (established_at 100 80)))
     = gasBaseline (established_at 100 80)
   \<and> baselineEstablished (established_at 100 80)"
proof -
  have h: "btnC (press_C (sample_tick 200000 75000 0)) \<and> \<not> got (press_C (sample_tick 200000 75000 0))"
    by (simp add: press_C_def)
  have e: "baselineEstablished (established_at 100 80)"
    by (simp add: established_at_def)
  show ?thesis
    using reinitialize_keeps_baseline
      [of True False True "established_at 100 80" "press_C (sample_tick 200000 75000 0)"
        pow_rounded] h e
    by blast
qed

text \<open>
  The same pass, read against the reset that was asked for: the flag is still set and
  the two stored values are still 100 and 80.
\<close>

theorem reinitialize_does_not_reset:
  "baselineEstablished (snd (loop pow_rounded (press_C (sample_tick 200000 75000 0)) (established_at 100 80)))
   \<and> gasBaseline (snd (loop pow_rounded (press_C (sample_tick 200000 75000 0)) (established_at 100 80))) = Fin 100
   \<and> gasMinWindow (snd (loop pow_rounded (press_C (sample_tick 200000 75000 0)) (established_at 100 80))) = Fin 80"
  by (simp add: loop_def press_C_def initBsec2_def established_at_def Let_def)

subsection \<open>Resetting the window minimum\<close>

text \<open>
  C5, as the program has it. In a cycle in which the baseline is established (from before, or by this very
  cycle) and more than \<^verbatim>\<open>WINDOW_UPDATE_INTERVAL_MS\<close> (30000 ms) have passed since
  the last window reset, the window minimum at the end of the cycle is the reading of
  that cycle, whatever the minimum was before, and the time of the last reset becomes
  the time of the cycle. In every other cycle the time of the last reset is unchanged.
  The reset comes before the minimum is tracked: the window minimum a cycle leaves is
  the one \<^verbatim>\<open>computeSimpleVocIndex\<close> leaves when run after the reset step.
\<close>

theorem window_reset_to_reading:
  "((baselineEstablished g \<or> BASELINE_DELAY_MS < now k)
      \<and> WINDOW_UPDATE_INTERVAL_MS < now k - lastWindowUpdate g \<longrightarrow>
        gasMinWindow (snd (snd (cycle pow k g))) = gas_kOhm (fst (cycle pow k g))
        \<and> gasMinWindow_kOhm (fst (cycle pow k g)) = gas_kOhm (fst (cycle pow k g))
        \<and> lastWindowUpdate (snd (snd (cycle pow k g))) = now k)
   \<and> (\<not> ((baselineEstablished g \<or> BASELINE_DELAY_MS < now k)
          \<and> WINDOW_UPDATE_INTERVAL_MS < now k - lastWindowUpdate g) \<longrightarrow>
        lastWindowUpdate (snd (snd (cycle pow k g))) = lastWindowUpdate g)
   \<and> gasMinWindow (snd (snd (cycle pow k g))) =
       gasMinWindow (snd (computeSimpleVocIndex (gas_kOhm (fst (cycle pow k g)))
         (reset_window (now k) (gas_kOhm (fst (cycle pow k g)))
           (establish_baseline (now k) (gas_kOhm (fst (cycle pow k g))) g))))"
proof -
  let ?gas = "normalize_gas (signal (dGas k))"
  let ?g0 = "g\<lparr>lastUpdate := now k\<rparr>"
  have fire: "gasMinWindow (snd (snd (cycle pow k g))) = ?gas
      \<and> lastWindowUpdate (snd (snd (cycle pow k g))) = now k"
    if "baselineEstablished g \<or> BASELINE_DELAY_MS < now k"
      and "WINDOW_UPDATE_INTERVAL_MS < now k - lastWindowUpdate g"
  proof -
    have "gasMinWindow (reset_window (now k) ?gas (establish_baseline (now k) ?gas ?g0)) = ?gas"
      and "lastWindowUpdate (reset_window (now k) ?gas (establish_baseline (now k) ?gas ?g0)) = now k"
      using that by (simp_all add: reset_fires)
    then show ?thesis
      by (simp add: cycle_globals periodic_save_keeps compute_keeps compute_window_same)
  qed
  have idle: "lastWindowUpdate (snd (snd (cycle pow k g))) = lastWindowUpdate g"
    if "\<not> ((baselineEstablished g \<or> BASELINE_DELAY_MS < now k)
          \<and> WINDOW_UPDATE_INTERVAL_MS < now k - lastWindowUpdate g)"
  proof -
    have "lastWindowUpdate (reset_window (now k) ?gas (establish_baseline (now k) ?gas ?g0))
        = lastWindowUpdate ?g0"
      by (rule reset_idle) (use that in simp)
    then show ?thesis
      by (simp add: cycle_globals periodic_save_keeps compute_keeps)
  qed
  have order: "gasMinWindow (snd (snd (cycle pow k g))) =
       gasMinWindow (snd (computeSimpleVocIndex ?gas
         (reset_window (now k) ?gas (establish_baseline (now k) ?gas g))))"
    by (simp add: cycle_globals periodic_save_keeps compute_window before_compute)
       (simp add: reset_window_def establish_baseline_def)
  show ?thesis
    using fire idle order by (simp add: cycle_vals cycle_window_vals)
qed

text \<open>
  The window minimum stands at 50 kilo-ohms from an earlier reading; a cycle at 200 s,
  more than 30 s after the last reset at 0, reads 80 kilo-ohms and leaves the minimum
  at 80. A cycle at exactly 30 s would not have reset the window.
\<close>

theorem window_reset_to_reading_witness:
  "gasMinWindow (established_at 100 50) = Fin 50
   \<and> gasMinWindow (snd (snd (cycle pow_rounded (sample_tick 200000 80000 0) (established_at 100 50)))) = Fin 80
   \<and> lastWindowUpdate (snd (snd (cycle pow_rounded (sample_tick 200000 80000 0) (established_at 100 50)))) = 200000
   \<and> lastWindowUpdate (snd (snd (cycle pow_rounded (sample_tick 30000 80000 0) (established_at 100 50)))) = 0"
proof -
  let ?k = "sample_tick 200000 80000 0"
  let ?j = "sample_tick 30000 80000 0"
  let ?g = "established_at 100 50"
  have h: "(baselineEstablished ?g \<or> BASELINE_DELAY_MS < now ?k)
      \<and> WINDOW_UPDATE_INTERVAL_MS < now ?k - lastWindowUpdate ?g"
    by (simp add: established_at_def sample_tick_def WINDOW_UPDATE_INTERVAL_MS_def)
  have i: "\<not> ((baselineEstablished ?g \<or> BASELINE_DELAY_MS < now ?j)
      \<and> WINDOW_UPDATE_INTERVAL_MS < now ?j - lastWindowUpdate ?g)"
    by (simp add: established_at_def sample_tick_def WINDOW_UPDATE_INTERVAL_MS_def)
  have gas: "gas_kOhm (fst (cycle pow_rounded ?k ?g)) = Fin 80"
    by (simp add: cycle_vals sample_tick_def normalize_gas_def round32_numeral)
  have t: "now ?k = 200000" by (simp add: sample_tick_def)
  have w: "gasMinWindow ?g = Fin 50" "lastWindowUpdate ?g = 0"
    by (simp_all add: established_at_def)
  from window_reset_to_reading [of ?g ?k pow_rounded] h
  have a: "gasMinWindow (snd (snd (cycle pow_rounded ?k ?g))) = gas_kOhm (fst (cycle pow_rounded ?k ?g))
      \<and> lastWindowUpdate (snd (snd (cycle pow_rounded ?k ?g))) = now ?k"
    by blast
  from window_reset_to_reading [of ?g ?j pow_rounded] i
  have b: "lastWindowUpdate (snd (snd (cycle pow_rounded ?j ?g))) = lastWindowUpdate ?g"
    by blast
  from a b show ?thesis unfolding gas t w by blast
qed

text \<open>
  A cycle exactly 30000 ms after the last reset resets nothing: the reading is 80
  kilo-ohms and the window minimum stays at the 50 it had.
\<close>

theorem window_not_reset_at_interval:
  "now (sample_tick 30000 80000 0) - lastWindowUpdate (established_at 100 50)
     = WINDOW_UPDATE_INTERVAL_MS
   \<and> baselineEstablished (established_at 100 50)
   \<and> gas_kOhm (fst (cycle pow_rounded (sample_tick 30000 80000 0) (established_at 100 50))) = Fin 80
   \<and> gasMinWindow (snd (snd (cycle pow_rounded (sample_tick 30000 80000 0) (established_at 100 50))))
     = Fin 50
   \<and> lastWindowUpdate (snd (snd (cycle pow_rounded (sample_tick 30000 80000 0) (established_at 100 50))))
     = 0"
proof -
  let ?k = "sample_tick 30000 80000 0"
  let ?g = "established_at 100 50"
  have gas: "normalize_gas (signal (dGas ?k)) = Fin 80"
    by (simp add: sample_tick_def normalize_gas_def round32_numeral)
  have t: "now ?k = 30000" by (simp add: sample_tick_def)
  have pre: "reset_window 30000 (Fin 80) (establish_baseline 30000 (Fin 80) (?g\<lparr>lastUpdate := 30000\<rparr>))
      = ?g\<lparr>lastUpdate := 30000\<rparr>"
    by (simp add: reset_window_def establish_baseline_def established_at_def
        WINDOW_UPDATE_INTERVAL_MS_def)
  have w: "gasMinWindow (snd (snd (cycle pow_rounded ?k ?g))) = Fin 50"
    unfolding cycle_globals gas t pre
    by (simp add: periodic_save_keeps compute_window established_at_def)
  have l: "lastWindowUpdate (snd (snd (cycle pow_rounded ?k ?g))) = 0"
    unfolding cycle_globals gas t pre
    by (simp add: periodic_save_keeps compute_keeps established_at_def)
  show ?thesis
    using w l by (simp add: cycle_vals gas) (simp add: sample_tick_def established_at_def
        WINDOW_UPDATE_INTERVAL_MS_def)
qed

subsection \<open>Saving the estimator state\<close>

text \<open>
  C6. The save condition of a cycle holds exactly when the IAQ accuracy is 3 and at
  least five minutes (300000 ms) have passed since \<^verbatim>\<open>lastStateSave\<close>; below
  accuracy 3 it never holds. When it holds, \<^verbatim>\<open>saveState\<close> is called and
  \<^verbatim>\<open>lastStateSave\<close> becomes the time of the cycle, also when \<^verbatim>\<open>getState\<close> or the
  write fails and the stored state stays what it was. When it does not hold, neither
  changes. After a cycle that saved, no cycle less than five minutes later saves.
\<close>

theorem save_schedule:
  "(should_save a t g \<longleftrightarrow> a = 3 \<and> SAVE_INTERVAL_LITERAL \<le> t - lastStateSave g)
   \<and> (a < 3 \<longrightarrow> \<not> should_save a t g)
   \<and> (should_save (accuracy (dIaq k)) (now k) g \<longrightarrow>
        lastStateSave (snd (snd (cycle pow k g))) = now k
        \<and> prefsState (snd (snd (cycle pow k g))) =
            prefsState (saveState (state_blob k) (put_ok k) g))
   \<and> (\<not> should_save (accuracy (dIaq k)) (now k) g \<longrightarrow>
        lastStateSave (snd (snd (cycle pow k g))) = lastStateSave g
        \<and> prefsState (snd (snd (cycle pow k g))) = prefsState g)
   \<and> prefsState (saveState None ok g) = prefsState g
   \<and> prefsState (saveState (Some b) False g) = prefsState g
   \<and> prefsState (saveState (Some b) True g) = Some b
   \<and> (should_save (accuracy (dIaq k)) (now k) g
        \<and> (\<forall>e\<in>set later. now e - now k < SAVE_INTERVAL_LITERAL) \<longrightarrow>
        lastStateSave (cycles pow (k # later) g) = now k
        \<and> prefsState (cycles pow (k # later) g) = prefsState (snd (snd (cycle pow k g))))"
proof -
  have run: "lastStateSave (cycles pow (k # later) g) = now k
        \<and> prefsState (cycles pow (k # later) g) = prefsState (snd (snd (cycle pow k g)))"
    if "should_save (accuracy (dIaq k)) (now k) g"
      and "\<forall>e\<in>set later. now e - now k < SAVE_INTERVAL_LITERAL"
  proof -
    have at: "lastStateSave (snd (snd (cycle pow k g))) = now k"
      using that(1) by (simp add: cycle_save)
    have "\<forall>e\<in>set later. now e - lastStateSave (snd (snd (cycle pow k g))) < SAVE_INTERVAL_LITERAL"
      using that(2) at by simp
    from cycles_no_save [OF this] at show ?thesis by simp
  qed
  have below: "\<not> should_save a t g" if "a < 3"
    using that by (auto simp: should_save_def)
  show ?thesis
    using run below by (simp add: cycle_save saveState_def) (simp add: should_save_def)
qed

text \<open>
  From power-up, a cycle at 300 s with accuracy 3 in which \<^verbatim>\<open>getState\<close> fails: the
  save time moves to 300000 although nothing was stored, and the cycles at 305 s and
  599.999 s, both with accuracy 3, do not save. A cycle at 299.999 s, or one with
  accuracy 2, would not have saved.
\<close>

theorem save_schedule_witness:
  "should_save 3 300000 (initial_globals None)
   \<and> \<not> should_save 2 300000 (initial_globals None)
   \<and> \<not> should_save 3 299999 (initial_globals None)
   \<and> lastStateSave (snd (snd (cycle pow_rounded (sample_tick 299999 75000 3) (initial_globals None)))) = 0
   \<and> lastStateSave (cycles pow_rounded ((sample_tick 300000 75000 3)\<lparr>state_blob := None\<rparr>
        # [sample_tick 305000 75000 3, sample_tick 599999 75000 3]) (initial_globals None)) = 300000
   \<and> prefsState (cycles pow_rounded ((sample_tick 300000 75000 3)\<lparr>state_blob := None\<rparr>
        # [sample_tick 305000 75000 3, sample_tick 599999 75000 3]) (initial_globals None)) = None"
proof -
  let ?g = "initial_globals None"
  let ?k = "(sample_tick 300000 75000 3)\<lparr>state_blob := None\<rparr>"
  let ?j = "sample_tick 299999 75000 3"
  let ?later = "[sample_tick 305000 75000 3, sample_tick 599999 75000 3]"
  have k: "accuracy (dIaq ?k) = 3" "now ?k = 300000" "state_blob ?k = None"
    by (simp_all add: sample_tick_def)
  have j: "accuracy (dIaq ?j) = 3" "now ?j = 299999"
    by (simp_all add: sample_tick_def)
  have g: "lastStateSave ?g = 0" "prefsState ?g = None"
    by (simp_all add: initial_globals_def)
  have l: "\<forall>e\<in>set ?later. now e - 300000 < SAVE_INTERVAL_LITERAL"
    by (simp add: sample_tick_def SAVE_INTERVAL_LITERAL_def)
  note T = save_schedule [of 3 300000 ?g ?k pow_rounded "put_ok ?k" "[]" ?later, unfolded k g]
  note U = save_schedule [of 2 300000 ?g ?j pow_rounded "put_ok ?j" "[]" "[]", unfolded j g]
  note V = save_schedule [of 3 299999 ?g ?j pow_rounded "put_ok ?j" "[]" "[]", unfolded j g]
  have s: "should_save 3 300000 ?g"
    using T by (simp add: SAVE_INTERVAL_LITERAL_def)
  have n: "\<not> should_save 2 300000 ?g"
    using U by simp
  have m: "\<not> should_save 3 299999 ?g"
    using V by (simp add: SAVE_INTERVAL_LITERAL_def)
  from V m have idle: "lastStateSave (snd (snd (cycle pow_rounded ?j ?g))) = 0"
    by blast
  from T s l have
    "lastStateSave (cycles pow_rounded (?k # ?later) ?g) = 300000
     \<and> prefsState (cycles pow_rounded (?k # ?later) ?g) = prefsState (snd (snd (cycle pow_rounded ?k ?g)))"
    by blast
  moreover from T s have
    "prefsState (snd (snd (cycle pow_rounded ?k ?g))) = prefsState (saveState None (put_ok ?k) ?g)"
    by blast
  moreover from T have "prefsState (saveState None (put_ok ?k) ?g) = None"
    by blast
  ultimately show ?thesis using s n m idle by simp
qed

subsection \<open>Choosing the line to show\<close>

text \<open>
  C7. The line a cycle shows is the one \<^verbatim>\<open>updateDynamicUI\<close> makes of that cycle's
  values. It is the simple index exactly when the accuracy of the cycle's IAQ output
  is below 2, and the vendor's IAQ exactly when it is 2 or more; the choice is the
  same from every state, so after any earlier cycles a cycle with accuracy below 2
  shows the simple index and its class, and one with accuracy 2 or more the IAQ.
\<close>

theorem info_line_selection:
  "fst (snd (cycle pow k g)) = updateDynamicUI (fst (cycle pow k g))
   \<and> (line_source (fst (snd (cycle pow k g))) = Fallback \<longleftrightarrow> accuracy (dIaq k) < 2)
   \<and> (line_source (fst (snd (cycle pow k g))) = Vendor \<longleftrightarrow> 2 \<le> accuracy (dIaq k))
   \<and> line_source (fst (snd (cycle pow k g))) = line_source (fst (snd (cycle pow k g')))
   \<and> (accuracy (dIaq k) < 2 \<longrightarrow>
        fst (snd (cycle pow k (cycles pow earlier g))) =
          SimpleVocLine (simpleVocIndex (fst (cycle pow k (cycles pow earlier g))))
            (classifySimpleVoc (simpleVocIndex (fst (cycle pow k (cycles pow earlier g))))))
   \<and> (2 \<le> accuracy (dIaq k) \<longrightarrow>
        fst (snd (cycle pow k (cycles pow earlier g))) = IaqLine (signal (dIaq k)) (accuracy (dIaq k)))"
proof -
  have src: "line_source (fst (snd (cycle pow k h))) =
      (if accuracy (dIaq k) < 2 then Fallback else Vendor)" for h
    by (simp add: cycle_line updateDynamicUI_def cycle_vals)
  have fb: "fst (snd (cycle pow k h)) =
          SimpleVocLine (simpleVocIndex (fst (cycle pow k h)))
            (classifySimpleVoc (simpleVocIndex (fst (cycle pow k h))))"
    if "accuracy (dIaq k) < 2" for h
    using that by (simp add: cycle_line updateDynamicUI_def cycle_vals(3))
  have vd: "fst (snd (cycle pow k h)) = IaqLine (signal (dIaq k)) (accuracy (dIaq k))"
    if "2 \<le> accuracy (dIaq k)" for h
    using that by (simp add: cycle_line updateDynamicUI_def cycle_vals(3,4) not_less)
  have c1: "fst (snd (cycle pow k g)) = updateDynamicUI (fst (cycle pow k g))"
    by (rule cycle_line)
  have c2: "line_source (fst (snd (cycle pow k g))) = Fallback \<longleftrightarrow> accuracy (dIaq k) < 2"
    by (simp add: src)
  have c3: "line_source (fst (snd (cycle pow k g))) = Vendor \<longleftrightarrow> 2 \<le> accuracy (dIaq k)"
    by (auto simp: src not_less)
  have c4: "line_source (fst (snd (cycle pow k g))) = line_source (fst (snd (cycle pow k g')))"
    by (simp add: src)
  show ?thesis
    using c1 c2 c3 c4 fb vd by blast
qed

text \<open>A cycle with accuracy 3 shows the IAQ; the next one, with accuracy 1, the simple index.\<close>

theorem info_line_selection_witness:
  "line_source (fst (snd (cycle pow_rounded (sample_tick 10000 75000 3) (initial_globals None)))) = Vendor
   \<and> line_source (fst (snd (cycle pow_rounded (sample_tick 15000 75000 1)
        (cycles pow_rounded [sample_tick 10000 75000 3] (initial_globals None))))) = Fallback"
proof -
  have a: "(2::u8) \<le> accuracy (dIaq (sample_tick 10000 75000 3))"
    and b: "accuracy (dIaq (sample_tick 15000 75000 1)) < (2::u8)"
    by (simp_all add: sample_tick_def)
  show ?thesis
    using info_line_selection [of pow_rounded "sample_tick 10000 75000 3" "initial_globals None"] a
      info_line_selection [of pow_rounded "sample_tick 15000 75000 1"
        "cycles pow_rounded [sample_tick 10000 75000 3] (initial_globals None)"] b
    by blast
qed

subsection \<open>Altitude from pressure\<close>




end
